theory Spec2Isabelle
  imports Main "HOL-Library.Sublist"
begin

section \<open>The QUADS tool gateway (quads\_mcp/tools/quads\_tools.py)\<close>

text \<open>
  Every tool of the module is an \<^verbatim>\<open>async def\<close> with the same skeleton: inside a
  \<^verbatim>\<open>try\<close> it resolves the base URL from the request context, builds the outbound
  request, calls the diagnostics handle \<^verbatim>\<open>ctx\<close>, issues one HTTP call, checks the
  status, decodes the body and returns a dict; an \<^verbatim>\<open>except\<close> clause turns an exception into
  an error dict. The model below is a shallow embedding of that code: a tool is a function
  from the world it runs in (the request context and the remote service) to its outcome
  (the returned value or the exception that leaves the function) together with the
  trace of what it did (the diagnostics it emitted, the diagnostic coroutines it created
  and left unawaited, and the requests it sent). The
  \<^verbatim>\<open>import httpx\<close> that precedes each \<^verbatim>\<open>try\<close> is taken to succeed.
\<close>

subsection \<open>Values\<close>

text \<open>
  What \<^verbatim>\<open>response.json()\<close> yields and what a tool returns (\<^verbatim>\<open>Dict[str, Any]\<close>). A Python
  dict keeps insertion order, so an object is an association list. Non-integral numbers
  are left out: no tool inspects a number.
\<close>

datatype json =
    JNull
  | JBool bool
  | JInt int
  | JString string
  | JArray "json list"
  | JObject "(string \<times> json) list"

text \<open>
  The exceptions a tool can meet, by the classes its \<^verbatim>\<open>except\<close> clauses tell apart.
  \<^verbatim>\<open>httpx.HTTPStatusError\<close> carries its message and the status code of its response; it is
  a subclass of \<^verbatim>\<open>Exception\<close>. \<open>OtherException\<close> is any other exception below
  \<^verbatim>\<open>Exception\<close> (timeouts, connection errors, JSON decode errors, AttributeError, ...),
  \<open>BaseException\<close> one that is not (\<^verbatim>\<open>asyncio.CancelledError\<close>, \<^verbatim>\<open>KeyboardInterrupt\<close>).
\<close>

datatype exn =
    HTTPStatusError string nat
  | OtherException string
  | BaseException string

text \<open>\<^verbatim>\<open>str(e)\<close>\<close>

fun str_exn :: "exn \<Rightarrow> string" where
  "str_exn (HTTPStatusError m sc) = m"
| "str_exn (OtherException m) = m"
| "str_exn (BaseException m) = m"

text \<open>\<^verbatim>\<open>isinstance(e, Exception)\<close>: what \<^verbatim>\<open>except Exception\<close> catches.\<close>

fun is_Exception :: "exn \<Rightarrow> bool" where
  "is_Exception (HTTPStatusError m sc) = True"
| "is_Exception (OtherException m) = True"
| "is_Exception (BaseException m) = False"

subsection \<open>The world outside a tool\<close>

datatype http_method = GET | POST

text \<open>
  One call of \<^verbatim>\<open>client.get\<close> / \<^verbatim>\<open>client.post\<close>, with the keyword arguments the source
  passes: \<open>params = None\<close> where the call has no \<^verbatim>\<open>params=\<close>, \<open>auth = None\<close> where it has
  no \<^verbatim>\<open>auth=\<close>. The timeout is the literal \<^verbatim>\<open>30.0\<close>.
\<close>

record request =
  verb :: http_method
  url :: string
  params :: "(string \<times> string) list option"
  auth :: "(string \<times> string) option"
  timeout :: nat

text \<open>
  An \<^verbatim>\<open>httpx.Response\<close>: its status code, the message \<^verbatim>\<open>raise_for_status()\<close> would put in
  the \<^verbatim>\<open>HTTPStatusError\<close> it raises, and what \<^verbatim>\<open>json()\<close> does (the decoded body, or the
  exception of a body that is not JSON).
\<close>

record response =
  status_code :: nat
  status_message :: string
  json_body :: "exn + json"

text \<open>The configuration mapping: \<^verbatim>\<open>config['quads']['base_url']\<close>.\<close>

type_synonym config = "string \<rightharpoonup> (string \<rightharpoonup> string)"

text \<open>
  What a tool reads from outside: \<open>request_context\<close> is the outcome of
  \<^verbatim>\<open>mcp.get_request_context().lifespan_context.config\<close> (an exception outside a request),
  \<open>http\<close> the behaviour of the remote service and the transport for a request (an exception
  for a transport failure), and \<open>repr\<close> Python's built-in \<^verbatim>\<open>repr\<close> on strings, used when a
  parameter dict is formatted into a diagnostic.
\<close>

record env =
  request_context :: "exn + config"
  http :: "request \<Rightarrow> exn + response"
  repr :: "string \<Rightarrow> string"

text \<open>
  The diagnostics handle \<^verbatim>\<open>Context\<close> of the protocol layer (\<^verbatim>\<open>mcp.server.fastmcp\<close>). Its
  methods \<^verbatim>\<open>info\<close> and \<^verbatim>\<open>error\<close> are coroutine functions: a call creates a coroutine object,
  and the message is emitted only when that object is awaited. The trace keeps the
  messages emitted (\<open>log\<close>) apart from the coroutines that were created and never awaited
  (\<open>unawaited\<close>, with the level and the message each would have emitted).
\<close>

datatype mcp_context = Context

datatype level = Info | Error

record trace =
  log :: "(level \<times> string) list"
  unawaited :: "(level \<times> string) list"
  requests :: "request list"

subsection \<open>Python's control flow\<close>

text \<open>
  A computation runs on the trace so far and ends with a value (\<open>Inr\<close>) or with a raised
  exception (\<open>Inl\<close>).
\<close>

type_synonym 'a py = "trace \<Rightarrow> (exn + 'a) \<times> trace"

definition py_return :: "'a \<Rightarrow> 'a py" where
  "py_return x = (\<lambda>t. (Inr x, t))"

definition py_raise :: "exn \<Rightarrow> 'a py" where
  "py_raise e = (\<lambda>t. (Inl e, t))"

text \<open>Sequencing: the second statement runs only if the first did not raise.\<close>

definition py_bind :: "'a py \<Rightarrow> ('a \<Rightarrow> 'b py) \<Rightarrow> 'b py" where
  "py_bind m f = (\<lambda>t. case m t of (Inl e, t') \<Rightarrow> (Inl e, t') | (Inr x, t') \<Rightarrow> f x t')"

text \<open>\<^verbatim>\<open>try: body  except ...: handler\<close>; the handler decides by the class of the exception.\<close>

definition py_try :: "'a py \<Rightarrow> (exn \<Rightarrow> 'a py) \<Rightarrow> 'a py" where
  "py_try body handler = (\<lambda>t. case body t of (Inr x, t') \<Rightarrow> (Inr x, t') | (Inl e, t') \<Rightarrow> handler e t')"

text \<open>\<^verbatim>\<open>except Exception as e: h\<close> as the last clause: anything else propagates.\<close>

definition except_Exception :: "(exn \<Rightarrow> 'a py) \<Rightarrow> exn \<Rightarrow> 'a py" where
  "except_Exception h e = (if is_Exception e then h e else py_raise e)"

text \<open>Lifting a value that was computed outside (or the exception raised instead).\<close>

definition py_of :: "exn + 'a \<Rightarrow> 'a py" where
  "py_of r = (case r of Inl e \<Rightarrow> py_raise e | Inr x \<Rightarrow> py_return x)"

text \<open>A tool invoked on the empty trace.\<close>

definition run :: "'a py \<Rightarrow> (exn + 'a) \<times> trace" where
  "run m = m \<lparr>log = [], unawaited = [], requests = []\<rparr>"

subsection \<open>The statements the tools share\<close>

text \<open>
  \<^verbatim>\<open>ctx.info(msg)\<close> and \<^verbatim>\<open>ctx.error(msg)\<close>, as the source writes them in every tool: without
  \<^verbatim>\<open>await\<close>. The call creates the coroutine and drops it, so nothing is emitted; the
  statement itself does not raise. Six tools declare \<^verbatim>\<open>ctx: Context = None\<close>; on \<^verbatim>\<open>None\<close> the
  attribute access raises AttributeError.
\<close>

text \<open>The AttributeError of \<^verbatim>\<open>None.name\<close>; its message quotes with the character 0x27.\<close>

definition none_has_no_attribute :: "string \<Rightarrow> exn" where
  "none_has_no_attribute name =
     OtherException ([CHR 0x27] @ ''NoneType'' @ [CHR 0x27] @ '' object has no attribute ''
                     @ [CHR 0x27] @ name @ [CHR 0x27])"

definition ctx_info :: "mcp_context option \<Rightarrow> string \<Rightarrow> unit py" where
  "ctx_info ctx msg = (case ctx of
       None \<Rightarrow> py_raise (none_has_no_attribute ''info'')
     | Some c \<Rightarrow> (\<lambda>t. (Inr (), t\<lparr>unawaited := unawaited t @ [(Info, msg)]\<rparr>)))"

definition ctx_error :: "mcp_context option \<Rightarrow> string \<Rightarrow> unit py" where
  "ctx_error ctx msg = (case ctx of
       None \<Rightarrow> py_raise (none_has_no_attribute ''error'')
     | Some c \<Rightarrow> (\<lambda>t. (Inr (), t\<lparr>unawaited := unawaited t @ [(Error, msg)]\<rparr>)))"

text \<open>
  \<^verbatim>\<open>app_ctx = mcp.get_request_context().lifespan_context; config = app_ctx.config;
  base_url = config.get('quads', {}).get('base_url', 'https://quads.example.com/api/v3')\<close>
\<close>

definition default_base_url :: string where
  "default_base_url = ''https://quads.example.com/api/v3''"

definition base_url_of :: "config \<Rightarrow> string" where
  "base_url_of config = (case config ''quads'' of
       None \<Rightarrow> default_base_url
     | Some quads \<Rightarrow> (case quads ''base_url'' of None \<Rightarrow> default_base_url | Some u \<Rightarrow> u))"

definition get_base_url :: "env \<Rightarrow> string py" where
  "get_base_url E = py_bind (py_of (request_context E)) (\<lambda>config. py_return (base_url_of config))"

text \<open>
  \<^verbatim>\<open>response = await client.get(url, params=..., timeout=30.0)\<close> (or \<^verbatim>\<open>client.post\<close>): the
  request goes out, which the trace records, and the transport answers or raises.
\<close>

definition send :: "env \<Rightarrow> request \<Rightarrow> response py" where
  "send E r = (\<lambda>t. (http E r, t\<lparr>requests := requests t @ [r]\<rparr>))"

definition client_get :: "env \<Rightarrow> string \<Rightarrow> (string \<times> string) list option \<Rightarrow> response py" where
  "client_get E u ps = send E \<lparr>verb = GET, url = u, params = ps, auth = None, timeout = 30\<rparr>"

definition client_post :: "env \<Rightarrow> string \<Rightarrow> (string \<times> string) \<Rightarrow> response py" where
  "client_post E u a = send E \<lparr>verb = POST, url = u, params = None, auth = Some a, timeout = 30\<rparr>"

text \<open>\<^verbatim>\<open>response.raise_for_status()\<close>: httpx raises unless the status is 2xx.\<close>

definition is_success :: "response \<Rightarrow> bool" where
  "is_success resp = (200 \<le> status_code resp \<and> status_code resp \<le> 299)"

definition raise_for_status :: "response \<Rightarrow> unit py" where
  "raise_for_status resp =
     (if is_success resp then py_return ()
      else py_raise (HTTPStatusError (status_message resp) (status_code resp)))"

text \<open>\<^verbatim>\<open>result = response.json()\<close>\<close>

definition response_json :: "response \<Rightarrow> json py" where
  "response_json resp = py_of (json_body resp)"

subsection \<open>Formatting\<close>

text \<open>\<^verbatim>\<open>str(n)\<close> of a natural number, as f-strings format \<^verbatim>\<open>len(result)\<close> and a status code.\<close>

definition digit_char :: "nat \<Rightarrow> char" where
  "digit_char d = ''0123456789'' ! d"

function str_nat :: "nat \<Rightarrow> string" where
  "str_nat n = (if n < 10 then [digit_char n] else str_nat (n div 10) @ [digit_char (n mod 10)])"
  by pat_completeness auto
termination
  by (relation "measure id") auto

declare str_nat.simps [simp del]

text \<open>\<^verbatim>\<open>len(result) if isinstance(result, list) else 'unknown'\<close>, formatted.\<close>

fun len_or_unknown :: "json \<Rightarrow> string" where
  "len_or_unknown (JArray xs) = str_nat (length xs)"
| "len_or_unknown j = ''unknown''"

text \<open>\<^verbatim>\<open>sep.join(xs)\<close>\<close>

fun join :: "string \<Rightarrow> string list \<Rightarrow> string" where
  "join sep [] = []"
| "join sep [x] = x"
| "join sep (x # y # ys) = x @ sep @ join sep (y # ys)"

text \<open>How an f-string formats a dict of strings: \<^verbatim>\<open>{'k': 'v', ...}\<close>.\<close>

definition dict_repr :: "env \<Rightarrow> (string \<times> string) list \<Rightarrow> string" where
  "dict_repr E kvs = ''{'' @ join '', '' (map (\<lambda>(k, v). repr E k @ '': '' @ repr E v) kvs) @ ''}''"

text \<open>A dict of strings as a returned value.\<close>

definition json_of_params :: "(string \<times> string) list \<Rightarrow> json" where
  "json_of_params kvs = JObject (map (\<lambda>(k, v). (k, JString v)) kvs)"

subsection \<open>Query parameters\<close>

text \<open>
  \<^verbatim>\<open>params[k] = v\<close> on an insertion-ordered dict: an existing key keeps its place and gets
  the new value, a new key goes to the end.
\<close>

fun dict_set :: "string \<Rightarrow> string \<Rightarrow> (string \<times> string) list \<Rightarrow> (string \<times> string) list" where
  "dict_set k v [] = [(k, v)]"
| "dict_set k v ((k', v') # kvs) = (if k' = k then (k, v) # kvs else (k', v') # dict_set k v kvs)"

text \<open>
  \<^verbatim>\<open>if a: params[k] = a\<close> for an \<^verbatim>\<open>Optional[str]\<close> argument: Python's truth test fails on
  \<^verbatim>\<open>None\<close> and on the empty string.
\<close>

definition set_if_truthy :: "string \<Rightarrow> string option \<Rightarrow> (string \<times> string) list \<Rightarrow> (string \<times> string) list" where
  "set_if_truthy k a ps = (case a of None \<Rightarrow> ps | Some v \<Rightarrow> if v \<noteq> [] then dict_set k v ps else ps)"

text \<open>\<^verbatim>\<open>str(b)\<close> of a bool, and \<^verbatim>\<open>.lower()\<close> on ASCII text.\<close>

definition str_bool :: "bool \<Rightarrow> string" where
  "str_bool b = (if b then ''True'' else ''False'')"

definition lower_char :: "char \<Rightarrow> char" where
  "lower_char c =
     (case map_of (zip ''ABCDEFGHIJKLMNOPQRSTUVWXYZ'' ''abcdefghijklmnopqrstuvwxyz'') c of
        None \<Rightarrow> c
      | Some l \<Rightarrow> l)"

definition lower :: "string \<Rightarrow> string" where
  "lower s = map lower_char s"

text \<open>\<^verbatim>\<open>if broken is not None: params['broken'] = str(broken).lower()\<close>\<close>

definition set_if_not_None :: "string \<Rightarrow> bool option \<Rightarrow> (string \<times> string) list \<Rightarrow> (string \<times> string) list" where
  "set_if_not_None k b ps = (case b of None \<Rightarrow> ps | Some v \<Rightarrow> dict_set k (lower (str_bool v)) ps)"

text \<open>The parameter dict of \<^verbatim>\<open>quads_get_hosts\<close>, lines 152-160.\<close>

definition quads_get_hosts_params ::
    "string option \<Rightarrow> string option \<Rightarrow> string option \<Rightarrow> bool option \<Rightarrow> (string \<times> string) list" where
  "quads_get_hosts_params name model host_type broken =
     set_if_not_None ''broken'' broken
       (set_if_truthy ''host_type'' host_type
         (set_if_truthy ''model'' model
           (set_if_truthy ''name'' name [])))"

text \<open>The parameter dict of \<^verbatim>\<open>quads_get_available_hosts\<close>, lines 235-241.\<close>

definition quads_get_available_hosts_params ::
    "string option \<Rightarrow> string option \<Rightarrow> string option \<Rightarrow> (string \<times> string) list" where
  "quads_get_available_hosts_params start end_date cloud =
     set_if_truthy ''cloud'' cloud
       (set_if_truthy ''end'' end_date
         (set_if_truthy ''start'' start []))"

text \<open>The parameter dict of \<^verbatim>\<open>quads_check_host_availability\<close>, lines 281-285.\<close>

definition quads_check_host_availability_params ::
    "string option \<Rightarrow> string option \<Rightarrow> (string \<times> string) list" where
  "quads_check_host_availability_params start end_date =
     set_if_truthy ''end'' end_date
       (set_if_truthy ''start'' start [])"

text \<open>The parameter dict of \<^verbatim>\<open>quads_get_current_schedules\<close>, lines 359-365.\<close>

definition quads_get_current_schedules_params ::
    "string option \<Rightarrow> string option \<Rightarrow> string option \<Rightarrow> (string \<times> string) list" where
  "quads_get_current_schedules_params date host cloud =
     set_if_truthy ''cloud'' cloud
       (set_if_truthy ''host'' host
         (set_if_truthy ''date'' date []))"

text \<open>The parameter dict of \<^verbatim>\<open>quads_get_moves\<close>, lines 476-478.\<close>

definition quads_get_moves_params :: "string option \<Rightarrow> (string \<times> string) list" where
  "quads_get_moves_params date = set_if_truthy ''date'' date []"

text \<open>An \<^verbatim>\<open>Optional[str]\<close> argument as a returned value.\<close>

definition json_of_optional :: "string option \<Rightarrow> json" where
  "json_of_optional a = (case a of None \<Rightarrow> JNull | Some v \<Rightarrow> JString v)"

subsection \<open>The tools\<close>

text \<open>\<^verbatim>\<open>quads_login(username, password, ctx)\<close>, lines 15-56.\<close>

definition quads_login :: "env \<Rightarrow> string \<Rightarrow> string \<Rightarrow> mcp_context \<Rightarrow> json py" where
  "quads_login E username password ctx =
     py_try
       (py_bind (get_base_url E) (\<lambda>base_url.
        py_bind (ctx_info (Some ctx) (''Logging in to QUADS API at '' @ base_url)) (\<lambda>_.
        py_bind (client_post E (base_url @ ''/login/'') (username, password)) (\<lambda>response.
        py_bind (raise_for_status response) (\<lambda>_.
        py_bind (response_json response) (\<lambda>result.
        py_bind (ctx_info (Some ctx) ''Successfully logged in to QUADS'') (\<lambda>_.
        py_return result)))))))
       (\<lambda>e. case e of
          HTTPStatusError m sc \<Rightarrow>
            (let error_msg = ''Login failed: HTTP '' @ str_nat sc in
             py_bind (ctx_error (Some ctx) error_msg) (\<lambda>_.
             py_return (JObject [(''error'', JString error_msg), (''status_code'', JInt (int sc))])))
        | _ \<Rightarrow> except_Exception (\<lambda>e.
            (let error_msg = ''Login error: '' @ str_exn e in
             py_bind (ctx_error (Some ctx) error_msg) (\<lambda>_.
             py_return (JObject [(''error'', JString error_msg)])))) e)"

text \<open>\<^verbatim>\<open>quads_get_clouds(ctx)\<close>, lines 60-90.\<close>

definition quads_get_clouds :: "env \<Rightarrow> mcp_context \<Rightarrow> json py" where
  "quads_get_clouds E ctx =
     py_try
       (py_bind (get_base_url E) (\<lambda>base_url.
        py_bind (ctx_info (Some ctx) ''Fetching all clouds from QUADS'') (\<lambda>_.
        py_bind (client_get E (base_url @ ''/clouds/'') None) (\<lambda>response.
        py_bind (raise_for_status response) (\<lambda>_.
        py_bind (response_json response) (\<lambda>result.
        py_bind (ctx_info (Some ctx) (''Retrieved '' @ len_or_unknown result @ '' clouds'')) (\<lambda>_.
        py_return (JObject [(''clouds'', result)]))))))))
       (except_Exception (\<lambda>e.
          (let error_msg = ''Failed to get clouds: '' @ str_exn e in
           py_bind (ctx_error (Some ctx) error_msg) (\<lambda>_.
           py_return (JObject [(''error'', JString error_msg)])))))"

text \<open>\<^verbatim>\<open>quads_get_free_clouds(ctx)\<close>, lines 94-124.\<close>

definition quads_get_free_clouds :: "env \<Rightarrow> mcp_context \<Rightarrow> json py" where
  "quads_get_free_clouds E ctx =
     py_try
       (py_bind (get_base_url E) (\<lambda>base_url.
        py_bind (ctx_info (Some ctx) ''Fetching free clouds from QUADS'') (\<lambda>_.
        py_bind (client_get E (base_url @ ''/clouds/free/'') None) (\<lambda>response.
        py_bind (raise_for_status response) (\<lambda>_.
        py_bind (response_json response) (\<lambda>result.
        py_bind (ctx_info (Some ctx) (''Retrieved '' @ len_or_unknown result @ '' free clouds'')) (\<lambda>_.
        py_return (JObject [(''free_clouds'', result)]))))))))
       (except_Exception (\<lambda>e.
          (let error_msg = ''Failed to get free clouds: '' @ str_exn e in
           py_bind (ctx_error (Some ctx) error_msg) (\<lambda>_.
           py_return (JObject [(''error'', JString error_msg)])))))"

text \<open>\<^verbatim>\<open>quads_get_hosts\<close>, lines 128-175.\<close>

definition quads_get_hosts :: "env \<Rightarrow> string option \<Rightarrow> string option \<Rightarrow> string option \<Rightarrow> bool option \<Rightarrow> mcp_context option \<Rightarrow> json py" where
  "quads_get_hosts E name model host_type broken ctx =
     py_try
       (py_bind (get_base_url E) (\<lambda>base_url.
        let params = quads_get_hosts_params name model host_type broken in
        py_bind (ctx_info ctx (''Fetching hosts from QUADS with filters: '' @ dict_repr E params)) (\<lambda>_.
        py_bind (client_get E (base_url @ ''/hosts/'') (Some params)) (\<lambda>response.
        py_bind (raise_for_status response) (\<lambda>_.
        py_bind (response_json response) (\<lambda>result.
        py_bind (ctx_info ctx (''Retrieved '' @ len_or_unknown result @ '' hosts'')) (\<lambda>_.
        py_return (JObject [(''hosts'', result), (''filters'', json_of_params params)]))))))))
       (except_Exception (\<lambda>e.
          (let error_msg = ''Failed to get hosts: '' @ str_exn e in
           py_bind (ctx_error ctx error_msg) (\<lambda>_.
           py_return (JObject [(''error'', JString error_msg)])))))"

text \<open>\<^verbatim>\<open>quads_get_host_details\<close>, lines 179-210.\<close>

definition quads_get_host_details :: "env \<Rightarrow> string \<Rightarrow> mcp_context \<Rightarrow> json py" where
  "quads_get_host_details E hostname ctx =
     py_try
       (py_bind (get_base_url E) (\<lambda>base_url.
        py_bind (ctx_info (Some ctx) (''Fetching details for host: '' @ hostname)) (\<lambda>_.
        py_bind (client_get E (base_url @ ''/hosts/'' @ hostname @ ''/'') None) (\<lambda>response.
        py_bind (raise_for_status response) (\<lambda>_.
        py_bind (response_json response) (\<lambda>result.
        py_bind (ctx_info (Some ctx) (''Retrieved details for host '' @ hostname)) (\<lambda>_.
        py_return (JObject [(''host'', result)]))))))))
       (except_Exception (\<lambda>e.
          (let error_msg = ''Failed to get host details for '' @ hostname @ '': '' @ str_exn e in
           py_bind (ctx_error (Some ctx) error_msg) (\<lambda>_.
           py_return (JObject [(''error'', JString error_msg)])))))"

text \<open>\<^verbatim>\<open>quads_get_available_hosts\<close>, lines 214-256.\<close>

definition quads_get_available_hosts :: "env \<Rightarrow> string option \<Rightarrow> string option \<Rightarrow> string option \<Rightarrow> mcp_context option \<Rightarrow> json py" where
  "quads_get_available_hosts E start end_date cloud ctx =
     py_try
       (py_bind (get_base_url E) (\<lambda>base_url.
        let params = quads_get_available_hosts_params start end_date cloud in
        py_bind (ctx_info ctx (''Fetching available hosts with parameters: '' @ dict_repr E params)) (\<lambda>_.
        py_bind (client_get E (base_url @ ''/available/'') (Some params)) (\<lambda>response.
        py_bind (raise_for_status response) (\<lambda>_.
        py_bind (response_json response) (\<lambda>result.
        py_bind (ctx_info ctx (''Retrieved '' @ len_or_unknown result @ '' available hosts'')) (\<lambda>_.
        py_return (JObject [(''available_hosts'', result), (''parameters'', json_of_params params)]))))))))
       (except_Exception (\<lambda>e.
          (let error_msg = ''Failed to get available hosts: '' @ str_exn e in
           py_bind (ctx_error ctx error_msg) (\<lambda>_.
           py_return (JObject [(''error'', JString error_msg)])))))"

text \<open>\<^verbatim>\<open>quads_check_host_availability\<close>, lines 260-300.\<close>

definition quads_check_host_availability :: "env \<Rightarrow> string \<Rightarrow> string option \<Rightarrow> string option \<Rightarrow> mcp_context option \<Rightarrow> json py" where
  "quads_check_host_availability E hostname start end_date ctx =
     py_try
       (py_bind (get_base_url E) (\<lambda>base_url.
        let params = quads_check_host_availability_params start end_date in
        py_bind (ctx_info ctx (''Checking availability for host '' @ hostname @ '' with parameters: '' @ dict_repr E params)) (\<lambda>_.
        py_bind (client_get E (base_url @ ''/available/'' @ hostname @ ''/'') (Some params)) (\<lambda>response.
        py_bind (raise_for_status response) (\<lambda>_.
        py_bind (response_json response) (\<lambda>result.
        py_bind (ctx_info ctx (''Checked availability for host '' @ hostname)) (\<lambda>_.
        py_return (JObject [(''hostname'', JString hostname), (''availability'', result), (''parameters'', json_of_params params)]))))))))
       (except_Exception (\<lambda>e.
          (let error_msg = ''Failed to check host availability for '' @ hostname @ '': '' @ str_exn e in
           py_bind (ctx_error ctx error_msg) (\<lambda>_.
           py_return (JObject [(''error'', JString error_msg)])))))"

text \<open>\<^verbatim>\<open>quads_get_schedules\<close>, lines 304-334.\<close>

definition quads_get_schedules :: "env \<Rightarrow> mcp_context \<Rightarrow> json py" where
  "quads_get_schedules E ctx =
     py_try
       (py_bind (get_base_url E) (\<lambda>base_url.
        py_bind (ctx_info (Some ctx) (''Fetching all schedules from QUADS'')) (\<lambda>_.
        py_bind (client_get E (base_url @ ''/schedules/'') None) (\<lambda>response.
        py_bind (raise_for_status response) (\<lambda>_.
        py_bind (response_json response) (\<lambda>result.
        py_bind (ctx_info (Some ctx) (''Retrieved '' @ len_or_unknown result @ '' schedules'')) (\<lambda>_.
        py_return (JObject [(''schedules'', result)]))))))))
       (except_Exception (\<lambda>e.
          (let error_msg = ''Failed to get schedules: '' @ str_exn e in
           py_bind (ctx_error (Some ctx) error_msg) (\<lambda>_.
           py_return (JObject [(''error'', JString error_msg)])))))"

text \<open>\<^verbatim>\<open>quads_get_current_schedules\<close>, lines 338-380.\<close>

definition quads_get_current_schedules :: "env \<Rightarrow> string option \<Rightarrow> string option \<Rightarrow> string option \<Rightarrow> mcp_context option \<Rightarrow> json py" where
  "quads_get_current_schedules E date host cloud ctx =
     py_try
       (py_bind (get_base_url E) (\<lambda>base_url.
        let params = quads_get_current_schedules_params date host cloud in
        py_bind (ctx_info ctx (''Fetching current schedules with parameters: '' @ dict_repr E params)) (\<lambda>_.
        py_bind (client_get E (base_url @ ''/schedules/current/'') (Some params)) (\<lambda>response.
        py_bind (raise_for_status response) (\<lambda>_.
        py_bind (response_json response) (\<lambda>result.
        py_bind (ctx_info ctx (''Retrieved current schedules'')) (\<lambda>_.
        py_return (JObject [(''current_schedules'', result), (''parameters'', json_of_params params)]))))))))
       (except_Exception (\<lambda>e.
          (let error_msg = ''Failed to get current schedules: '' @ str_exn e in
           py_bind (ctx_error ctx error_msg) (\<lambda>_.
           py_return (JObject [(''error'', JString error_msg)])))))"

text \<open>\<^verbatim>\<open>quads_get_assignments\<close>, lines 384-414.\<close>

definition quads_get_assignments :: "env \<Rightarrow> mcp_context \<Rightarrow> json py" where
  "quads_get_assignments E ctx =
     py_try
       (py_bind (get_base_url E) (\<lambda>base_url.
        py_bind (ctx_info (Some ctx) (''Fetching all assignments from QUADS'')) (\<lambda>_.
        py_bind (client_get E (base_url @ ''/assignments/'') None) (\<lambda>response.
        py_bind (raise_for_status response) (\<lambda>_.
        py_bind (response_json response) (\<lambda>result.
        py_bind (ctx_info (Some ctx) (''Retrieved assignments'')) (\<lambda>_.
        py_return (JObject [(''assignments'', result)]))))))))
       (except_Exception (\<lambda>e.
          (let error_msg = ''Failed to get assignments: '' @ str_exn e in
           py_bind (ctx_error (Some ctx) error_msg) (\<lambda>_.
           py_return (JObject [(''error'', JString error_msg)])))))"

text \<open>
  \<^verbatim>\<open>quads_get_active_assignments\<close>, lines 418-454. The branch on \<^verbatim>\<open>if cloud_name:\<close> chooses
  the URL and the first diagnostic.
\<close>

definition active_assignments_url :: "string \<Rightarrow> string option \<Rightarrow> string" where
  "active_assignments_url base_url cloud_name = (case cloud_name of
       None \<Rightarrow> base_url @ ''/assignments/active/''
     | Some c \<Rightarrow> if c \<noteq> [] then base_url @ ''/assignments/active/'' @ c @ ''/''
                else base_url @ ''/assignments/active/'')"

definition active_assignments_info :: "string option \<Rightarrow> string" where
  "active_assignments_info cloud_name = (case cloud_name of
       None \<Rightarrow> ''Fetching all active assignments''
     | Some c \<Rightarrow> if c \<noteq> [] then ''Fetching active assignments for cloud: '' @ c
                else ''Fetching all active assignments'')"

definition quads_get_active_assignments :: "env \<Rightarrow> string option \<Rightarrow> mcp_context option \<Rightarrow> json py" where
  "quads_get_active_assignments E cloud_name ctx =
     py_try
       (py_bind (get_base_url E) (\<lambda>base_url.
        let url = active_assignments_url base_url cloud_name in
        py_bind (ctx_info ctx (active_assignments_info cloud_name)) (\<lambda>_.
        py_bind (client_get E url None) (\<lambda>response.
        py_bind (raise_for_status response) (\<lambda>_.
        py_bind (response_json response) (\<lambda>result.
        py_bind (ctx_info ctx ''Retrieved active assignments'') (\<lambda>_.
        py_return (JObject [(''active_assignments'', result),
                            (''cloud_filter'', json_of_optional cloud_name)]))))))))
       (except_Exception (\<lambda>e.
          (let error_msg = ''Failed to get active assignments: '' @ str_exn e in
           py_bind (ctx_error ctx error_msg) (\<lambda>_.
           py_return (JObject [(''error'', JString error_msg)])))))"

text \<open>\<^verbatim>\<open>quads_get_moves\<close>, lines 458-493.\<close>

definition quads_get_moves :: "env \<Rightarrow> string option \<Rightarrow> mcp_context option \<Rightarrow> json py" where
  "quads_get_moves E date ctx =
     py_try
       (py_bind (get_base_url E) (\<lambda>base_url.
        let params = quads_get_moves_params date in
        py_bind (ctx_info ctx (''Fetching moves with parameters: '' @ dict_repr E params)) (\<lambda>_.
        py_bind (client_get E (base_url @ ''/moves/'') (Some params)) (\<lambda>response.
        py_bind (raise_for_status response) (\<lambda>_.
        py_bind (response_json response) (\<lambda>result.
        py_bind (ctx_info ctx (''Retrieved '' @ len_or_unknown result @ '' moves'')) (\<lambda>_.
        py_return (JObject [(''moves'', result), (''parameters'', json_of_params params)]))))))))
       (except_Exception (\<lambda>e.
          (let error_msg = ''Failed to get moves: '' @ str_exn e in
           py_bind (ctx_error ctx error_msg) (\<lambda>_.
           py_return (JObject [(''error'', JString error_msg)])))))"

text \<open>\<^verbatim>\<open>quads_get_version\<close>, lines 497-527.\<close>

definition quads_get_version :: "env \<Rightarrow> mcp_context \<Rightarrow> json py" where
  "quads_get_version E ctx =
     py_try
       (py_bind (get_base_url E) (\<lambda>base_url.
        py_bind (ctx_info (Some ctx) (''Fetching QUADS version'')) (\<lambda>_.
        py_bind (client_get E (base_url @ ''/version/'') None) (\<lambda>response.
        py_bind (raise_for_status response) (\<lambda>_.
        py_bind (response_json response) (\<lambda>result.
        py_bind (ctx_info (Some ctx) (''Retrieved QUADS version'')) (\<lambda>_.
        py_return (JObject [(''version'', result)]))))))))
       (except_Exception (\<lambda>e.
          (let error_msg = ''Failed to get version: '' @ str_exn e in
           py_bind (ctx_error (Some ctx) error_msg) (\<lambda>_.
           py_return (JObject [(''error'', JString error_msg)])))))"

subsection \<open>The tool registry\<close>

text \<open>
  \<^verbatim>\<open>@mcp.tool()\<close> registers each function under its name; the protocol layer calls the
  one a request names, with the request's arguments. A \<open>tool_call\<close> is such a call.
\<close>

datatype tool_call =
    Login string string mcp_context
  | GetClouds mcp_context
  | GetFreeClouds mcp_context
  | GetHosts "string option" "string option" "string option" "bool option" "mcp_context option"
  | GetHostDetails string mcp_context
  | GetAvailableHosts "string option" "string option" "string option" "mcp_context option"
  | CheckHostAvailability string "string option" "string option" "mcp_context option"
  | GetSchedules mcp_context
  | GetCurrentSchedules "string option" "string option" "string option" "mcp_context option"
  | GetAssignments mcp_context
  | GetActiveAssignments "string option" "mcp_context option"
  | GetMoves "string option" "mcp_context option"
  | GetVersion mcp_context

fun invoke :: "env \<Rightarrow> tool_call \<Rightarrow> json py" where
  "invoke E (Login username password ctx) = quads_login E username password ctx"
| "invoke E (GetClouds ctx) = quads_get_clouds E ctx"
| "invoke E (GetFreeClouds ctx) = quads_get_free_clouds E ctx"
| "invoke E (GetHosts name model host_type broken ctx) = quads_get_hosts E name model host_type broken ctx"
| "invoke E (GetHostDetails hostname ctx) = quads_get_host_details E hostname ctx"
| "invoke E (GetAvailableHosts start end_date cloud ctx) = quads_get_available_hosts E start end_date cloud ctx"
| "invoke E (CheckHostAvailability hostname start end_date ctx) =
     quads_check_host_availability E hostname start end_date ctx"
| "invoke E (GetSchedules ctx) = quads_get_schedules E ctx"
| "invoke E (GetCurrentSchedules date host cloud ctx) = quads_get_current_schedules E date host cloud ctx"
| "invoke E (GetAssignments ctx) = quads_get_assignments E ctx"
| "invoke E (GetActiveAssignments cloud_name ctx) = quads_get_active_assignments E cloud_name ctx"
| "invoke E (GetMoves date ctx) = quads_get_moves E date ctx"
| "invoke E (GetVersion ctx) = quads_get_version E ctx"

text \<open>The \<^verbatim>\<open>ctx\<close> argument of a call: \<open>None\<close> is possible where the signature defaults it.\<close>

fun ctx_of :: "tool_call \<Rightarrow> mcp_context option" where
  "ctx_of (Login username password ctx) = Some ctx"
| "ctx_of (GetClouds ctx) = Some ctx"
| "ctx_of (GetFreeClouds ctx) = Some ctx"
| "ctx_of (GetHosts name model host_type broken ctx) = ctx"
| "ctx_of (GetHostDetails hostname ctx) = Some ctx"
| "ctx_of (GetAvailableHosts start end_date cloud ctx) = ctx"
| "ctx_of (CheckHostAvailability hostname start end_date ctx) = ctx"
| "ctx_of (GetSchedules ctx) = Some ctx"
| "ctx_of (GetCurrentSchedules date host cloud ctx) = ctx"
| "ctx_of (GetAssignments ctx) = Some ctx"
| "ctx_of (GetActiveAssignments cloud_name ctx) = ctx"
| "ctx_of (GetMoves date ctx) = ctx"
| "ctx_of (GetVersion ctx) = Some ctx"

subsection \<open>What the claims speak of\<close>

text \<open>
  The request a call sends once the base URL is known: endpoint, method, query
  parameters, credentials and timeout, read off the \<^verbatim>\<open>client.get\<close> / \<^verbatim>\<open>client.post\<close> line of
  each tool. That the tools send exactly this request is \<open>requests_invoke\<close> below.
\<close>

fun request_of :: "string \<Rightarrow> tool_call \<Rightarrow> request" where
  "request_of b (Login username password ctx) =
     \<lparr>verb = POST, url = b @ ''/login/'', params = None, auth = Some (username, password), timeout = 30\<rparr>"
| "request_of b (GetClouds ctx) =
     \<lparr>verb = GET, url = b @ ''/clouds/'', params = None, auth = None, timeout = 30\<rparr>"
| "request_of b (GetFreeClouds ctx) =
     \<lparr>verb = GET, url = b @ ''/clouds/free/'', params = None, auth = None, timeout = 30\<rparr>"
| "request_of b (GetHosts name model host_type broken ctx) =
     \<lparr>verb = GET, url = b @ ''/hosts/'',
      params = Some (quads_get_hosts_params name model host_type broken), auth = None, timeout = 30\<rparr>"
| "request_of b (GetHostDetails hostname ctx) =
     \<lparr>verb = GET, url = b @ ''/hosts/'' @ hostname @ ''/'', params = None, auth = None, timeout = 30\<rparr>"
| "request_of b (GetAvailableHosts start end_date cloud ctx) =
     \<lparr>verb = GET, url = b @ ''/available/'',
      params = Some (quads_get_available_hosts_params start end_date cloud), auth = None, timeout = 30\<rparr>"
| "request_of b (CheckHostAvailability hostname start end_date ctx) =
     \<lparr>verb = GET, url = b @ ''/available/'' @ hostname @ ''/'',
      params = Some (quads_check_host_availability_params start end_date), auth = None, timeout = 30\<rparr>"
| "request_of b (GetSchedules ctx) =
     \<lparr>verb = GET, url = b @ ''/schedules/'', params = None, auth = None, timeout = 30\<rparr>"
| "request_of b (GetCurrentSchedules date host cloud ctx) =
     \<lparr>verb = GET, url = b @ ''/schedules/current/'',
      params = Some (quads_get_current_schedules_params date host cloud), auth = None, timeout = 30\<rparr>"
| "request_of b (GetAssignments ctx) =
     \<lparr>verb = GET, url = b @ ''/assignments/'', params = None, auth = None, timeout = 30\<rparr>"
| "request_of b (GetActiveAssignments cloud_name ctx) =
     \<lparr>verb = GET, url = active_assignments_url b cloud_name, params = None, auth = None, timeout = 30\<rparr>"
| "request_of b (GetMoves date ctx) =
     \<lparr>verb = GET, url = b @ ''/moves/'', params = Some (quads_get_moves_params date), auth = None, timeout = 30\<rparr>"
| "request_of b (GetVersion ctx) =
     \<lparr>verb = GET, url = b @ ''/version/'', params = None, auth = None, timeout = 30\<rparr>"

text \<open>
  The text before \<^verbatim>\<open>str(e)\<close> in the message of the generic \<^verbatim>\<open>except Exception\<close> clause of
  each tool.
\<close>

fun error_prefix :: "tool_call \<Rightarrow> string" where
  "error_prefix (Login username password ctx) = ''Login error: ''"
| "error_prefix (GetClouds ctx) = ''Failed to get clouds: ''"
| "error_prefix (GetFreeClouds ctx) = ''Failed to get free clouds: ''"
| "error_prefix (GetHosts name model host_type broken ctx) = ''Failed to get hosts: ''"
| "error_prefix (GetHostDetails hostname ctx) = ''Failed to get host details for '' @ hostname @ '': ''"
| "error_prefix (GetAvailableHosts start end_date cloud ctx) = ''Failed to get available hosts: ''"
| "error_prefix (CheckHostAvailability hostname start end_date ctx) =
     ''Failed to check host availability for '' @ hostname @ '': ''"
| "error_prefix (GetSchedules ctx) = ''Failed to get schedules: ''"
| "error_prefix (GetCurrentSchedules date host cloud ctx) = ''Failed to get current schedules: ''"
| "error_prefix (GetAssignments ctx) = ''Failed to get assignments: ''"
| "error_prefix (GetActiveAssignments cloud_name ctx) = ''Failed to get active assignments: ''"
| "error_prefix (GetMoves date ctx) = ''Failed to get moves: ''"
| "error_prefix (GetVersion ctx) = ''Failed to get version: ''"

text \<open>
  The name of the operation, as the words of the function's name after \<^verbatim>\<open>quads_\<close>.
\<close>

fun operation_name :: "tool_call \<Rightarrow> string" where
  "operation_name (Login username password ctx) = ''login''"
| "operation_name (GetClouds ctx) = ''get clouds''"
| "operation_name (GetFreeClouds ctx) = ''get free clouds''"
| "operation_name (GetHosts name model host_type broken ctx) = ''get hosts''"
| "operation_name (GetHostDetails hostname ctx) = ''get host details''"
| "operation_name (GetAvailableHosts start end_date cloud ctx) = ''get available hosts''"
| "operation_name (CheckHostAvailability hostname start end_date ctx) = ''check host availability''"
| "operation_name (GetSchedules ctx) = ''get schedules''"
| "operation_name (GetCurrentSchedules date host cloud ctx) = ''get current schedules''"
| "operation_name (GetAssignments ctx) = ''get assignments''"
| "operation_name (GetActiveAssignments cloud_name ctx) = ''get active assignments''"
| "operation_name (GetMoves date ctx) = ''get moves''"
| "operation_name (GetVersion ctx) = ''get version''"

text \<open>
  The key under which a tool returns the decoded payload. \<^verbatim>\<open>quads_login\<close> has none: it
  returns the payload itself.
\<close>

fun domain_key :: "tool_call \<Rightarrow> string option" where
  "domain_key (Login username password ctx) = None"
| "domain_key (GetClouds ctx) = Some ''clouds''"
| "domain_key (GetFreeClouds ctx) = Some ''free_clouds''"
| "domain_key (GetHosts name model host_type broken ctx) = Some ''hosts''"
| "domain_key (GetHostDetails hostname ctx) = Some ''host''"
| "domain_key (GetAvailableHosts start end_date cloud ctx) = Some ''available_hosts''"
| "domain_key (CheckHostAvailability hostname start end_date ctx) = Some ''availability''"
| "domain_key (GetSchedules ctx) = Some ''schedules''"
| "domain_key (GetCurrentSchedules date host cloud ctx) = Some ''current_schedules''"
| "domain_key (GetAssignments ctx) = Some ''assignments''"
| "domain_key (GetActiveAssignments cloud_name ctx) = Some ''active_assignments''"
| "domain_key (GetMoves date ctx) = Some ''moves''"
| "domain_key (GetVersion ctx) = Some ''version''"

text \<open>The top-level keys of a returned value; a value that is not a dict has none.\<close>

fun keys :: "json \<Rightarrow> string list" where
  "keys (JObject kvs) = map fst kvs"
| "keys j = []"

text \<open>\<^verbatim>\<open>d[k]\<close> on a returned value, \<open>None\<close> where Python raises.\<close>

fun lookup :: "json \<Rightarrow> string \<Rightarrow> json option" where
  "lookup (JObject kvs) k = map_of kvs k"
| "lookup j k = None"

text \<open>\<open>is_login\<close> tells the one tool with a clause for \<^verbatim>\<open>httpx.HTTPStatusError\<close> from the rest.\<close>

fun is_login :: "tool_call \<Rightarrow> bool" where
  "is_login (Login username password ctx) = True"
| "is_login c = False"

text \<open>
  The first exception raised inside the \<^verbatim>\<open>try\<close> body of a call whose Context is present:
  by the request context, by the transport, by the status check or by the decoding of the
  body, in the order of the statements; \<open>None\<close> when the body runs to its end.
\<close>

definition raised :: "env \<Rightarrow> tool_call \<Rightarrow> exn option" where
  "raised E c = (case request_context E of
       Inl e \<Rightarrow> Some e
     | Inr config \<Rightarrow> (case http E (request_of (base_url_of config) c) of
           Inl e \<Rightarrow> Some e
         | Inr resp \<Rightarrow>
             if \<not> is_success resp then Some (HTTPStatusError (status_message resp) (status_code resp))
             else (case json_body resp of Inl e \<Rightarrow> Some e | Inr result \<Rightarrow> None)))"

text \<open>
  The error dict of a call for an exception: \<^verbatim>\<open>{"error": "<prefix><str(e)>"}\<close>, and for an
  \<^verbatim>\<open>HTTPStatusError\<close> in \<^verbatim>\<open>quads_login\<close> the dict with the status code.
\<close>

definition error_envelope :: "tool_call \<Rightarrow> exn \<Rightarrow> json" where
  "error_envelope c e =
     (if is_login c
      then (case e of
              HTTPStatusError m sc \<Rightarrow>
                JObject [(''error'', JString (''Login failed: HTTP '' @ str_nat sc)),
                         (''status_code'', JInt (int sc))]
            | _ \<Rightarrow> JObject [(''error'', JString (error_prefix c @ str_exn e))])
      else JObject [(''error'', JString (error_prefix c @ str_exn e))])"

text \<open>The outcome of a call on the empty trace, and what it emitted and sent.\<close>

definition outcome :: "env \<Rightarrow> tool_call \<Rightarrow> exn + json" where
  "outcome E c = fst (run (invoke E c))"

definition emitted :: "env \<Rightarrow> tool_call \<Rightarrow> (level \<times> string) list" where
  "emitted E c = log (snd (run (invoke E c)))"

definition sent :: "env \<Rightarrow> tool_call \<Rightarrow> request list" where
  "sent E c = requests (snd (run (invoke E c)))"

text \<open>The names of the query parameters of a request.\<close>

definition param_keys :: "request \<Rightarrow> string list" where
  "param_keys r = (case params r of None \<Rightarrow> [] | Some ps \<Rightarrow> map fst ps)"

subsection \<open>Example worlds\<close>

text \<open>
  A configuration with a base URL, a world whose transport gives the same answer to
  every request, and some answers. \<open>plain_repr\<close> is \<^verbatim>\<open>repr\<close> on strings that need no
  escaping.
\<close>

definition example_config :: config where
  "example_config = [''quads'' \<mapsto> [''base_url'' \<mapsto> ''https://quads.lab/api/v3'']]"

definition plain_repr :: "string \<Rightarrow> string" where
  "plain_repr s = [CHR 0x27] @ s @ [CHR 0x27]"

definition example_env :: "(exn + response) \<Rightarrow> env" where
  "example_env answer = \<lparr>request_context = Inr example_config, http = (\<lambda>r. answer), repr = plain_repr\<rparr>"

definition ok_response :: "json \<Rightarrow> response" where
  "ok_response body = \<lparr>status_code = 200, status_message = [], json_body = Inr body\<rparr>"

text \<open>The message httpx gives the \<^verbatim>\<open>HTTPStatusError\<close> of a 404 (its first line).\<close>

definition not_found_message :: "string \<Rightarrow> string" where
  "not_found_message u =
     ''Client error '' @ [CHR 0x27] @ ''404 Not Found'' @ [CHR 0x27] @ '' for url '' @ [CHR 0x27] @ u @ [CHR 0x27]"

definition not_found_response :: "string \<Rightarrow> response" where
  "not_found_response u =
     \<lparr>status_code = 404, status_message = not_found_message u,
      json_body = Inr (JObject [(''error'', JString ''Not Found'')])\<rparr>"

definition unauthorized_response :: response where
  "unauthorized_response =
     \<lparr>status_code = 401, status_message = ''Client error 401 UNAUTHORIZED'',
      json_body = Inr (JObject [(''error'', JString ''Unauthorized'')])\<rparr>"

text \<open>A body that is not JSON: \<^verbatim>\<open>json()\<close> raises \<^verbatim>\<open>JSONDecodeError\<close>.\<close>

definition html_response :: response where
  "html_response =
     \<lparr>status_code = 200, status_message = [],
      json_body = Inl (OtherException ''Expecting value: line 1 column 1 (char 0)'')\<rparr>"

section \<open>Properties\<close>

lemmas py_defs = py_bind_def py_try_def py_return_def py_raise_def py_of_def except_Exception_def
  ctx_info_def ctx_error_def get_base_url_def send_def client_get_def client_post_def
  raise_for_status_def response_json_def run_def

lemmas tool_defs = quads_login_def quads_get_clouds_def quads_get_free_clouds_def quads_get_hosts_def
  quads_get_host_details_def quads_get_available_hosts_def quads_check_host_availability_def
  quads_get_schedules_def quads_get_current_schedules_def quads_get_assignments_def
  quads_get_active_assignments_def quads_get_moves_def quads_get_version_def

lemmas example_defs = example_env_def example_config_def ok_response_def not_found_response_def
  unauthorized_response_def html_response_def is_success_def base_url_of_def

lemma not_is_Exception: "(\<not> is_Exception e) = (\<exists>m. e = BaseException m)"
  by (cases e) auto

lemmas all_splits = sum.splits exn.splits prod.splits option.splits if_splits

lemma dict_set_lookup: "map_of (dict_set k v ps) k = Some v"
  by (induction ps) auto

lemma dict_set_keys: "fst ` set (dict_set k v ps) = insert k (fst ` set ps)"
proof (induction ps)
  case Nil
  show ?case by simp
next
  case (Cons p ps)
  obtain k' v' where p: "p = (k', v')" by (cases p)
  show ?case
  proof (cases "k' = k")
    case True
    then show ?thesis by (simp add: p)
  next
    case False
    then show ?thesis using Cons.IH by (simp add: p insert_commute)
  qed
qed

lemma absent_truthy:
  "k \<notin> fst ` set ps \<Longrightarrow> a = None \<or> a = Some [] \<or> k \<noteq> k' \<Longrightarrow> k \<notin> fst ` set (set_if_truthy k' a ps)"
  by (auto simp: set_if_truthy_def dict_set_keys split: option.splits)

lemma absent_not_None:
  "k \<notin> fst ` set ps \<Longrightarrow> b = None \<or> k \<noteq> k' \<Longrightarrow> k \<notin> fst ` set (set_if_not_None k' b ps)"
  by (auto simp: set_if_not_None_def dict_set_keys split: option.splits)

lemma set_if_truthy_empty: "set_if_truthy k (Some []) ps = set_if_truthy k None ps"
  by (simp add: set_if_truthy_def)

lemma lower_str_bool: "lower (str_bool b) = (if b then ''true'' else ''false'')"
  by (simp add: lower_def str_bool_def lower_char_def)

lemma name_in_prefix: "sublist (operation_name c) (lower (error_prefix c @ msg))"
  by (cases c) (simp_all add: lower_def lower_char_def sublist_code)

lemma sent_cases:
  "sent E c = (case ctx_of c of None \<Rightarrow> [] | Some x \<Rightarrow>
     (case request_context E of Inl e \<Rightarrow> [] | Inr config \<Rightarrow> [request_of (base_url_of config) c]))"
  by (cases c; cases "ctx_of c"; cases "request_context E")
     (auto simp: sent_def tool_defs py_defs Let_def split: all_splits)

lemma transport_outcome:
  assumes "ctx_of c = Some x"
    and "request_context E = Inr config"
    and "http E (request_of (base_url_of config) c) = Inl (OtherException msg)"
  shows "outcome E c = Inr (JObject [(''error'', JString (error_prefix c @ msg))])"
  using assms by (cases c) (simp_all add: outcome_def tool_defs py_defs Let_def)

lemma decode_outcome:
  assumes "ctx_of c = Some x"
    and "request_context E = Inr config"
    and "http E (request_of (base_url_of config) c) = Inr resp"
    and "is_success resp"
    and "json_body resp = Inl (OtherException msg)"
  shows "outcome E c = Inr (JObject [(''error'', JString (error_prefix c @ msg))])"
  using assms by (cases c) (simp_all add: outcome_def tool_defs py_defs Let_def)

lemmas params_defs = quads_get_hosts_params_def quads_get_available_hosts_params_def
  quads_check_host_availability_params_def quads_get_current_schedules_params_def
  quads_get_moves_params_def

lemma hosts_absent:
  "(name = None \<longrightarrow> ''name'' \<notin> fst ` set (quads_get_hosts_params name model host_type broken))
   \<and> (model = None \<longrightarrow> ''model'' \<notin> fst ` set (quads_get_hosts_params name model host_type broken))
   \<and> (host_type = None \<longrightarrow> ''host_type'' \<notin> fst ` set (quads_get_hosts_params name model host_type broken))
   \<and> (broken = None \<longrightarrow> ''broken'' \<notin> fst ` set (quads_get_hosts_params name model host_type broken))"
  by (simp add: params_defs absent_truthy absent_not_None)

lemma available_absent:
  "(start = None \<longrightarrow> ''start'' \<notin> fst ` set (quads_get_available_hosts_params start end_date cloud))
   \<and> (end_date = None \<longrightarrow> ''end'' \<notin> fst ` set (quads_get_available_hosts_params start end_date cloud))
   \<and> (cloud = None \<longrightarrow> ''cloud'' \<notin> fst ` set (quads_get_available_hosts_params start end_date cloud))"
  by (simp add: params_defs absent_truthy absent_not_None)

lemma check_absent:
  "(start = None \<longrightarrow> ''start'' \<notin> fst ` set (quads_check_host_availability_params start end_date))
   \<and> (end_date = None \<longrightarrow> ''end'' \<notin> fst ` set (quads_check_host_availability_params start end_date))"
  by (simp add: params_defs absent_truthy absent_not_None)

lemma current_absent:
  "(date = None \<longrightarrow> ''date'' \<notin> fst ` set (quads_get_current_schedules_params date host cloud))
   \<and> (host = None \<longrightarrow> ''host'' \<notin> fst ` set (quads_get_current_schedules_params date host cloud))
   \<and> (cloud = None \<longrightarrow> ''cloud'' \<notin> fst ` set (quads_get_current_schedules_params date host cloud))"
  by (simp add: params_defs absent_truthy absent_not_None)

lemma moves_absent:
  "date = None \<longrightarrow> ''date'' \<notin> fst ` set (quads_get_moves_params date)"
  by (simp add: params_defs absent_truthy absent_not_None)

lemma hosts_all_unset: "quads_get_hosts_params None None None None = []"
  by (simp add: params_defs set_if_truthy_def set_if_not_None_def)

lemma sent_param_keys:
  "r \<in> set (sent E c) \<Longrightarrow> \<exists>b. r = request_of b c"
  by (auto simp: sent_cases split: option.splits sum.splits)

lemma str_nat_401: "str_nat 401 = ''401''"
  by (simp add: str_nat.simps digit_char_def)

subsection \<open>Remote rejection\<close>

text \<open>
  C1, as the code has it. When the remote answers a call with a status outside 2xx,
  \<^verbatim>\<open>quads_login\<close> returns \<^verbatim>\<open>{"error": "Login failed: HTTP <status>", "status_code": <status>}\<close>.
  Every other tool has only the generic \<^verbatim>\<open>except Exception\<close> clause: with its Context
  present it returns \<^verbatim>\<open>{"error": "<its prefix><message of the HTTPStatusError>"}\<close>, a dict
  with the one key \<^verbatim>\<open>error\<close> and no \<^verbatim>\<open>status_code\<close>.
\<close>

theorem non_2xx_envelope:
  assumes "ctx_of c = Some x"
    and "request_context E = Inr config"
    and "http E (request_of (base_url_of config) c) = Inr resp"
    and "\<not> is_success resp"
  shows "outcome E c = Inr (if is_login c
            then JObject [(''error'', JString (''Login failed: HTTP '' @ str_nat (status_code resp))),
                          (''status_code'', JInt (int (status_code resp)))]
            else JObject [(''error'', JString (error_prefix c @ status_message resp))])"
  using assms by (cases c) (simp_all add: outcome_def tool_defs py_defs Let_def)

theorem non_2xx_envelope_witness:
  "ctx_of (Login ''alice'' ''secret'' Context) = Some Context
   \<and> request_context (example_env (Inr unauthorized_response)) = Inr example_config
   \<and> http (example_env (Inr unauthorized_response))
        (request_of (base_url_of example_config) (Login ''alice'' ''secret'' Context))
      = Inr unauthorized_response
   \<and> \<not> is_success unauthorized_response
   \<and> outcome (example_env (Inr unauthorized_response)) (Login ''alice'' ''secret'' Context)
      = Inr (JObject [(''error'', JString ''Login failed: HTTP 401''), (''status_code'', JInt 401)])"
  using non_2xx_envelope [of "Login ''alice'' ''secret'' Context" Context
      "example_env (Inr unauthorized_response)" example_config unauthorized_response]
  by (simp add: example_env_def unauthorized_response_def is_success_def str_nat_401)

text \<open>
  C1 as stated fails for the host-detail tool: on a 404 the error text carries the
  message of the exception, not \<^verbatim>\<open>HTTP 404\<close>, and there is no \<^verbatim>\<open>status_code\<close> key.
\<close>

theorem host_details_404_counterexample:
  "fst (run (quads_get_host_details
         (example_env (Inr (not_found_response ''https://quads.lab/api/v3/hosts/host01/'')))
         ''host01'' Context))
     = Inr (JObject [(''error'', JString (''Failed to get host details for host01: ''
                        @ not_found_message ''https://quads.lab/api/v3/hosts/host01/''))])
   \<and> fst (run (quads_get_host_details
         (example_env (Inr (not_found_response ''https://quads.lab/api/v3/hosts/host01/'')))
         ''host01'' Context))
     \<noteq> Inr (JObject [(''error'', JString ''Failed to get host details for host01: HTTP 404''),
                      (''status_code'', JInt 404)])"
  by (simp add: quads_get_host_details_def py_defs Let_def example_env_def not_found_response_def is_success_def)

subsection \<open>Success\<close>

text \<open>
  C6. When the request context resolves and the remote answers the free-clouds request
  with a 2xx response whose body decodes to \<open>payload\<close>, \<^verbatim>\<open>quads_get_free_clouds\<close> returns
  exactly \<^verbatim>\<open>{"free_clouds": payload}\<close>.
\<close>

theorem free_clouds_wraps_payload:
  assumes "request_context E = Inr config"
    and "http E \<lparr>verb = GET, url = base_url_of config @ ''/clouds/free/'', params = None,
                  auth = None, timeout = 30\<rparr> = Inr resp"
    and "is_success resp"
    and "json_body resp = Inr payload"
  shows "fst (run (quads_get_free_clouds E ctx)) = Inr (JObject [(''free_clouds'', payload)])"
  using assms by (simp add: quads_get_free_clouds_def py_defs)

theorem free_clouds_wraps_payload_witness:
  "request_context (example_env (Inr (ok_response (JArray [JString ''cloud01'', JString ''cloud02''])))) = Inr example_config
   \<and> http (example_env (Inr (ok_response (JArray [JString ''cloud01'', JString ''cloud02'']))))
        \<lparr>verb = GET, url = base_url_of example_config @ ''/clouds/free/'', params = None,
         auth = None, timeout = 30\<rparr>
      = Inr (ok_response (JArray [JString ''cloud01'', JString ''cloud02'']))
   \<and> is_success (ok_response (JArray [JString ''cloud01'', JString ''cloud02'']))
   \<and> json_body (ok_response (JArray [JString ''cloud01'', JString ''cloud02'']))
      = Inr (JArray [JString ''cloud01'', JString ''cloud02''])
   \<and> fst (run (quads_get_free_clouds
        (example_env (Inr (ok_response (JArray [JString ''cloud01'', JString ''cloud02'']))))
        Context))
      = Inr (JObject [(''free_clouds'', JArray [JString ''cloud01'', JString ''cloud02''])])"
  using free_clouds_wraps_payload [of
      "example_env (Inr (ok_response (JArray [JString ''cloud01'', JString ''cloud02''])))"
      example_config "ok_response (JArray [JString ''cloud01'', JString ''cloud02''])"
      "JArray [JString ''cloud01'', JString ''cloud02'']" Context]
  by (simp add: example_env_def ok_response_def is_success_def)

subsection \<open>Query parameters\<close>

text \<open>
  C4. In every request a tool with optional filter arguments sends, an argument that was
  left unset (\<^verbatim>\<open>None\<close>) has no query parameter; \<^verbatim>\<open>quads_get_hosts\<close> with all four filters
  unset sends the empty parameter dict.
\<close>

theorem unset_filters_absent:
  "(\<forall>r \<in> set (sent E (GetHosts name model host_type broken ctx)).
       (name = None \<longrightarrow> ''name'' \<notin> set (param_keys r))
     \<and> (model = None \<longrightarrow> ''model'' \<notin> set (param_keys r))
     \<and> (host_type = None \<longrightarrow> ''host_type'' \<notin> set (param_keys r))
     \<and> (broken = None \<longrightarrow> ''broken'' \<notin> set (param_keys r)))
   \<and> (\<forall>r \<in> set (sent E (GetAvailableHosts start end_date cloud ctx)).
       (start = None \<longrightarrow> ''start'' \<notin> set (param_keys r))
     \<and> (end_date = None \<longrightarrow> ''end'' \<notin> set (param_keys r))
     \<and> (cloud = None \<longrightarrow> ''cloud'' \<notin> set (param_keys r)))
   \<and> (\<forall>r \<in> set (sent E (CheckHostAvailability hostname start end_date ctx)).
       (start = None \<longrightarrow> ''start'' \<notin> set (param_keys r))
     \<and> (end_date = None \<longrightarrow> ''end'' \<notin> set (param_keys r)))
   \<and> (\<forall>r \<in> set (sent E (GetCurrentSchedules date host cloud ctx)).
       (date = None \<longrightarrow> ''date'' \<notin> set (param_keys r))
     \<and> (host = None \<longrightarrow> ''host'' \<notin> set (param_keys r))
     \<and> (cloud = None \<longrightarrow> ''cloud'' \<notin> set (param_keys r)))
   \<and> (\<forall>r \<in> set (sent E (GetMoves date ctx)).
       date = None \<longrightarrow> ''date'' \<notin> set (param_keys r))
   \<and> (\<forall>r \<in> set (sent E (GetHosts None None None None ctx)). params r = Some [])"
proof (intro conjI ballI)
  fix r assume "r \<in> set (sent E (GetHosts name model host_type broken ctx))"
  then obtain b where r: "r = request_of b (GetHosts name model host_type broken ctx)"
    using sent_param_keys by blast
  show "name = None \<longrightarrow> ''name'' \<notin> set (param_keys r)"
    using hosts_absent [of name model host_type broken] by (simp add: r param_keys_def)
  show "model = None \<longrightarrow> ''model'' \<notin> set (param_keys r)"
    using hosts_absent [of name model host_type broken] by (simp add: r param_keys_def)
  show "host_type = None \<longrightarrow> ''host_type'' \<notin> set (param_keys r)"
    using hosts_absent [of name model host_type broken] by (simp add: r param_keys_def)
  show "broken = None \<longrightarrow> ''broken'' \<notin> set (param_keys r)"
    using hosts_absent [of name model host_type broken] by (simp add: r param_keys_def)
next
  fix r assume "r \<in> set (sent E (GetAvailableHosts start end_date cloud ctx))"
  then obtain b where r: "r = request_of b (GetAvailableHosts start end_date cloud ctx)"
    using sent_param_keys by blast
  show "start = None \<longrightarrow> ''start'' \<notin> set (param_keys r)"
    using available_absent [of start end_date cloud] by (simp add: r param_keys_def)
  show "end_date = None \<longrightarrow> ''end'' \<notin> set (param_keys r)"
    using available_absent [of start end_date cloud] by (simp add: r param_keys_def)
  show "cloud = None \<longrightarrow> ''cloud'' \<notin> set (param_keys r)"
    using available_absent [of start end_date cloud] by (simp add: r param_keys_def)
next
  fix r assume "r \<in> set (sent E (CheckHostAvailability hostname start end_date ctx))"
  then obtain b where r: "r = request_of b (CheckHostAvailability hostname start end_date ctx)"
    using sent_param_keys by blast
  show "start = None \<longrightarrow> ''start'' \<notin> set (param_keys r)"
    using check_absent [of start end_date] by (simp add: r param_keys_def)
  show "end_date = None \<longrightarrow> ''end'' \<notin> set (param_keys r)"
    using check_absent [of start end_date] by (simp add: r param_keys_def)
next
  fix r assume "r \<in> set (sent E (GetCurrentSchedules date host cloud ctx))"
  then obtain b where r: "r = request_of b (GetCurrentSchedules date host cloud ctx)"
    using sent_param_keys by blast
  show "date = None \<longrightarrow> ''date'' \<notin> set (param_keys r)"
    using current_absent [of date host cloud] by (simp add: r param_keys_def)
  show "host = None \<longrightarrow> ''host'' \<notin> set (param_keys r)"
    using current_absent [of date host cloud] by (simp add: r param_keys_def)
  show "cloud = None \<longrightarrow> ''cloud'' \<notin> set (param_keys r)"
    using current_absent [of date host cloud] by (simp add: r param_keys_def)
next
  fix r assume "r \<in> set (sent E (GetMoves date ctx))"
  then obtain b where r: "r = request_of b (GetMoves date ctx)"
    using sent_param_keys by blast
  show "date = None \<longrightarrow> ''date'' \<notin> set (param_keys r)"
    using moves_absent [of date] by (simp add: r param_keys_def)
next
  fix r assume "r \<in> set (sent E (GetHosts None None None None ctx))"
  then obtain b where r: "r = request_of b (GetHosts None None None None ctx)"
    using sent_param_keys by blast
  show "params r = Some []"
    by (simp add: r hosts_all_unset)
qed

theorem unset_filters_absent_witness:
  "sent (example_env (Inr (ok_response (JArray [])))) (GetHosts None None None None (Some Context))
     = [\<lparr>verb = GET, url = ''https://quads.lab/api/v3/hosts/'', params = Some [], auth = None, timeout = 30\<rparr>]
   \<and> param_keys \<lparr>verb = GET, url = ''https://quads.lab/api/v3/hosts/'', params = Some [], auth = None, timeout = 30\<rparr> = []"
  using unset_filters_absent [where E = "example_env (Inr (ok_response (JArray [])))"
      and name = None and model = None and host_type = None and broken = None and ctx = "Some Context"]
  by (simp add: sent_def quads_get_hosts_def py_defs Let_def example_defs params_defs
      set_if_truthy_def set_if_not_None_def param_keys_def)

lemma hosts_broken:
  "map_of (quads_get_hosts_params name model host_type (Some b)) ''broken''
     = Some (if b then ''true'' else ''false'')"
  by (simp add: quads_get_hosts_params_def set_if_not_None_def dict_set_lookup lower_str_bool)

text \<open>
  C5. The one boolean filter, \<^verbatim>\<open>broken\<close> of \<^verbatim>\<open>quads_get_hosts\<close>, when set goes out as the
  string \<^verbatim>\<open>true\<close> or \<^verbatim>\<open>false\<close> in lower case, never as \<^verbatim>\<open>True\<close>, \<^verbatim>\<open>False\<close>, \<^verbatim>\<open>1\<close> or \<^verbatim>\<open>0\<close>.
\<close>

theorem boolean_filter_lowercase:
  "\<forall>r \<in> set (sent E (GetHosts name model host_type (Some b) ctx)).
     \<exists>ps. params r = Some ps
        \<and> map_of ps ''broken'' = Some (if b then ''true'' else ''false'')
        \<and> map_of ps ''broken'' \<notin> {Some ''True'', Some ''False'', Some ''1'', Some ''0''}"
proof
  fix r assume "r \<in> set (sent E (GetHosts name model host_type (Some b) ctx))"
  then obtain u where r: "r = request_of u (GetHosts name model host_type (Some b) ctx)"
    using sent_param_keys by blast
  show "\<exists>ps. params r = Some ps
        \<and> map_of ps ''broken'' = Some (if b then ''true'' else ''false'')
        \<and> map_of ps ''broken'' \<notin> {Some ''True'', Some ''False'', Some ''1'', Some ''0''}"
    by (simp add: r hosts_broken)
qed

theorem boolean_filter_lowercase_witness:
  "sent (example_env (Inr (ok_response (JArray [])))) (GetHosts None None None (Some False) (Some Context))
     = [\<lparr>verb = GET, url = ''https://quads.lab/api/v3/hosts/'', params = Some [(''broken'', ''false'')],
         auth = None, timeout = 30\<rparr>]
   \<and> sent (example_env (Inr (ok_response (JArray [])))) (GetHosts None None None (Some True) (Some Context))
     = [\<lparr>verb = GET, url = ''https://quads.lab/api/v3/hosts/'', params = Some [(''broken'', ''true'')],
         auth = None, timeout = 30\<rparr>]"
  using boolean_filter_lowercase [where E = "example_env (Inr (ok_response (JArray [])))"
      and name = None and model = None and host_type = None and b = False and ctx = "Some Context"]
  by (simp add: sent_def quads_get_hosts_def py_defs Let_def example_defs params_defs
      set_if_truthy_def set_if_not_None_def lower_str_bool)

text \<open>
  C10. An empty string for a string filter argument is treated as an unset one: the
  requests sent are the same as with \<^verbatim>\<open>None\<close> and the parameter is not in the dict; for
  \<^verbatim>\<open>quads_get_active_assignments\<close> an empty \<^verbatim>\<open>cloud_name\<close> selects the collection endpoint
  \<^verbatim>\<open>/assignments/active/\<close>.
\<close>

theorem empty_string_as_unset:
  "sent E (GetHosts (Some []) model host_type broken ctx) = sent E (GetHosts None model host_type broken ctx)
   \<and> sent E (GetHosts name (Some []) host_type broken ctx) = sent E (GetHosts name None host_type broken ctx)
   \<and> sent E (GetHosts name model (Some []) broken ctx) = sent E (GetHosts name model None broken ctx)
   \<and> sent E (GetAvailableHosts (Some []) end_date cloud ctx) = sent E (GetAvailableHosts None end_date cloud ctx)
   \<and> sent E (GetAvailableHosts start (Some []) cloud ctx) = sent E (GetAvailableHosts start None cloud ctx)
   \<and> sent E (GetAvailableHosts start end_date (Some []) ctx) = sent E (GetAvailableHosts start end_date None ctx)
   \<and> sent E (CheckHostAvailability hostname (Some []) end_date ctx)
       = sent E (CheckHostAvailability hostname None end_date ctx)
   \<and> sent E (CheckHostAvailability hostname start (Some []) ctx)
       = sent E (CheckHostAvailability hostname start None ctx)
   \<and> sent E (GetCurrentSchedules (Some []) host cloud ctx) = sent E (GetCurrentSchedules None host cloud ctx)
   \<and> sent E (GetCurrentSchedules date (Some []) cloud ctx) = sent E (GetCurrentSchedules date None cloud ctx)
   \<and> sent E (GetCurrentSchedules date host (Some []) ctx) = sent E (GetCurrentSchedules date host None ctx)
   \<and> sent E (GetMoves (Some []) ctx) = sent E (GetMoves None ctx)
   \<and> sent E (GetActiveAssignments (Some []) ctx) = sent E (GetActiveAssignments None ctx)
   \<and> active_assignments_url base_url (Some []) = base_url @ ''/assignments/active/''
   \<and> ''name'' \<notin> fst ` set (quads_get_hosts_params (Some []) model host_type broken)
   \<and> ''model'' \<notin> fst ` set (quads_get_hosts_params name (Some []) host_type broken)
   \<and> ''host_type'' \<notin> fst ` set (quads_get_hosts_params name model (Some []) broken)
   \<and> ''start'' \<notin> fst ` set (quads_get_available_hosts_params (Some []) end_date cloud)
   \<and> ''end'' \<notin> fst ` set (quads_get_available_hosts_params start (Some []) cloud)
   \<and> ''cloud'' \<notin> fst ` set (quads_get_available_hosts_params start end_date (Some []))
   \<and> ''start'' \<notin> fst ` set (quads_check_host_availability_params (Some []) end_date)
   \<and> ''end'' \<notin> fst ` set (quads_check_host_availability_params start (Some []))
   \<and> ''date'' \<notin> fst ` set (quads_get_current_schedules_params (Some []) host cloud)
   \<and> ''host'' \<notin> fst ` set (quads_get_current_schedules_params date (Some []) cloud)
   \<and> ''cloud'' \<notin> fst ` set (quads_get_current_schedules_params date host (Some []))
   \<and> ''date'' \<notin> fst ` set (quads_get_moves_params (Some []))"
proof -
  have p: "quads_get_hosts_params (Some []) model host_type broken = quads_get_hosts_params None model host_type broken"
    "quads_get_hosts_params name (Some []) host_type broken = quads_get_hosts_params name None host_type broken"
    "quads_get_hosts_params name model (Some []) broken = quads_get_hosts_params name model None broken"
    "quads_get_available_hosts_params (Some []) end_date cloud = quads_get_available_hosts_params None end_date cloud"
    "quads_get_available_hosts_params start (Some []) cloud = quads_get_available_hosts_params start None cloud"
    "quads_get_available_hosts_params start end_date (Some []) = quads_get_available_hosts_params start end_date None"
    "quads_check_host_availability_params (Some []) end_date = quads_check_host_availability_params None end_date"
    "quads_check_host_availability_params start (Some []) = quads_check_host_availability_params start None"
    "quads_get_current_schedules_params (Some []) host cloud = quads_get_current_schedules_params None host cloud"
    "quads_get_current_schedules_params date (Some []) cloud = quads_get_current_schedules_params date None cloud"
    "quads_get_current_schedules_params date host (Some []) = quads_get_current_schedules_params date host None"
    "quads_get_moves_params (Some []) = quads_get_moves_params None"
    for name model host_type broken start end_date cloud date host
    by (simp_all add: params_defs set_if_truthy_empty)
  have u: "active_assignments_url b (Some []) = active_assignments_url b None" for b
    by (simp add: active_assignments_url_def)
  have s: "sent E (GetHosts (Some []) model host_type broken ctx) = sent E (GetHosts None model host_type broken ctx)"
    "sent E (GetHosts name (Some []) host_type broken ctx) = sent E (GetHosts name None host_type broken ctx)"
    "sent E (GetHosts name model (Some []) broken ctx) = sent E (GetHosts name model None broken ctx)"
    "sent E (GetAvailableHosts (Some []) end_date cloud ctx) = sent E (GetAvailableHosts None end_date cloud ctx)"
    "sent E (GetAvailableHosts start (Some []) cloud ctx) = sent E (GetAvailableHosts start None cloud ctx)"
    "sent E (GetAvailableHosts start end_date (Some []) ctx) = sent E (GetAvailableHosts start end_date None ctx)"
    "sent E (CheckHostAvailability hostname (Some []) end_date ctx)
       = sent E (CheckHostAvailability hostname None end_date ctx)"
    "sent E (CheckHostAvailability hostname start (Some []) ctx)
       = sent E (CheckHostAvailability hostname start None ctx)"
    "sent E (GetCurrentSchedules (Some []) host cloud ctx) = sent E (GetCurrentSchedules None host cloud ctx)"
    "sent E (GetCurrentSchedules date (Some []) cloud ctx) = sent E (GetCurrentSchedules date None cloud ctx)"
    "sent E (GetCurrentSchedules date host (Some []) ctx) = sent E (GetCurrentSchedules date host None ctx)"
    "sent E (GetMoves (Some []) ctx) = sent E (GetMoves None ctx)"
    "sent E (GetActiveAssignments (Some []) ctx) = sent E (GetActiveAssignments None ctx)"
    by (simp_all add: sent_cases p u split: option.splits sum.splits)
  have a: "active_assignments_url base_url (Some []) = base_url @ ''/assignments/active/''"
    by (simp add: active_assignments_url_def)
  have k: "''name'' \<notin> fst ` set (quads_get_hosts_params (Some []) model host_type broken)"
    "''model'' \<notin> fst ` set (quads_get_hosts_params name (Some []) host_type broken)"
    "''host_type'' \<notin> fst ` set (quads_get_hosts_params name model (Some []) broken)"
    "''start'' \<notin> fst ` set (quads_get_available_hosts_params (Some []) end_date cloud)"
    "''end'' \<notin> fst ` set (quads_get_available_hosts_params start (Some []) cloud)"
    "''cloud'' \<notin> fst ` set (quads_get_available_hosts_params start end_date (Some []))"
    "''start'' \<notin> fst ` set (quads_check_host_availability_params (Some []) end_date)"
    "''end'' \<notin> fst ` set (quads_check_host_availability_params start (Some []))"
    "''date'' \<notin> fst ` set (quads_get_current_schedules_params (Some []) host cloud)"
    "''host'' \<notin> fst ` set (quads_get_current_schedules_params date (Some []) cloud)"
    "''cloud'' \<notin> fst ` set (quads_get_current_schedules_params date host (Some []))"
    "''date'' \<notin> fst ` set (quads_get_moves_params (Some []))"
    by (simp_all add: params_defs absent_truthy absent_not_None)
  show ?thesis
    by (intro conjI) (rule s a k)+
qed

subsection \<open>Transport failure\<close>

text \<open>
  C7. When the Context is present and the request context resolves, a transport failure
  (the HTTP call raises an exception below \<^verbatim>\<open>Exception\<close>: timeout, DNS failure, connection
  refused) or a decode failure (a 2xx response whose body is not JSON) makes every tool
  return \<^verbatim>\<open>{"error": "<its prefix><message>"}\<close>: a dict with the key \<^verbatim>\<open>error\<close> alone, so
  without \<^verbatim>\<open>status_code\<close>, whose text contains the name of the operation (compared in
  lower case). The prefix is \<^verbatim>\<open>Login error: \<close> for \<^verbatim>\<open>quads_login\<close> and
  \<^verbatim>\<open>Failed to <operation>: \<close> for the other tools.
\<close>

theorem transport_failure_envelope:
  assumes "ctx_of c = Some x"
    and "request_context E = Inr config"
    and "http E (request_of (base_url_of config) c) = Inl (OtherException msg)
         \<or> (\<exists>resp. http E (request_of (base_url_of config) c) = Inr resp
               \<and> is_success resp \<and> json_body resp = Inl (OtherException msg))"
  shows "\<exists>j. outcome E c = Inr j
           \<and> j = JObject [(''error'', JString (error_prefix c @ msg))]
           \<and> ''status_code'' \<notin> set (keys j)
           \<and> sublist (operation_name c) (lower (error_prefix c @ msg))"
proof -
  have "outcome E c = Inr (JObject [(''error'', JString (error_prefix c @ msg))])"
    using assms transport_outcome decode_outcome by blast
  then show ?thesis
    by (simp add: name_in_prefix)
qed

theorem transport_failure_envelope_witness:
  "ctx_of (GetVersion Context) = Some Context
   \<and> request_context (example_env (Inl (OtherException ''timed out''))) = Inr example_config
   \<and> http (example_env (Inl (OtherException ''timed out'')))
        (request_of (base_url_of example_config) (GetVersion Context)) = Inl (OtherException ''timed out'')
   \<and> outcome (example_env (Inl (OtherException ''timed out''))) (GetVersion Context)
        = Inr (JObject [(''error'', JString ''Failed to get version: timed out'')])"
  using transport_failure_envelope [of "GetVersion Context" Context
      "example_env (Inl (OtherException ''timed out''))" example_config "''timed out''"]
  by (simp add: example_env_def)

subsection \<open>Timeout\<close>

text \<open>
  C9. Every request a tool sends carries the timeout 30, and an invocation sends at most
  one request; when that request fails (as on expiry of the timeout) the invocation has
  sent exactly this one request and returns the error dict: there is no retry.
\<close>

theorem one_request_with_timeout:
  "(\<forall>r \<in> set (sent E c). timeout r = 30)
   \<and> length (sent E c) \<le> 1
   \<and> (\<forall>x config msg. ctx_of c = Some x \<longrightarrow> request_context E = Inr config
         \<longrightarrow> http E (request_of (base_url_of config) c) = Inl (OtherException msg)
         \<longrightarrow> sent E c = [request_of (base_url_of config) c]
             \<and> outcome E c = Inr (JObject [(''error'', JString (error_prefix c @ msg))]))"
proof (intro conjI allI impI ballI)
  fix r assume "r \<in> set (sent E c)"
  then obtain b where "r = request_of b c"
    using sent_param_keys by blast
  then show "timeout r = 30"
    by (cases c) simp_all
next
  show "length (sent E c) \<le> 1"
    by (simp add: sent_cases split: option.splits sum.splits)
next
  fix x config msg
  assume "ctx_of c = Some x" "request_context E = Inr config"
    "http E (request_of (base_url_of config) c) = Inl (OtherException msg)"
  then show "sent E c = [request_of (base_url_of config) c]"
    by (simp add: sent_cases)
next
  fix x config msg
  assume "ctx_of c = Some x" "request_context E = Inr config"
    "http E (request_of (base_url_of config) c) = Inl (OtherException msg)"
  then show "outcome E c = Inr (JObject [(''error'', JString (error_prefix c @ msg))])"
    by (rule transport_outcome)
qed

theorem one_request_with_timeout_witness:
  "sent (example_env (Inl (OtherException ''timed out''))) (GetClouds Context)
     = [\<lparr>verb = GET, url = ''https://quads.lab/api/v3/clouds/'', params = None, auth = None, timeout = 30\<rparr>]
   \<and> timeout \<lparr>verb = GET, url = ''https://quads.lab/api/v3/clouds/'', params = None, auth = None,
               timeout = 30\<rparr> = 30
   \<and> ctx_of (GetClouds Context) = Some Context
   \<and> request_context (example_env (Inl (OtherException ''timed out''))) = Inr example_config
   \<and> http (example_env (Inl (OtherException ''timed out'')))
        (request_of (base_url_of example_config) (GetClouds Context)) = Inl (OtherException ''timed out'')
   \<and> outcome (example_env (Inl (OtherException ''timed out''))) (GetClouds Context)
        = Inr (JObject [(''error'', JString ''Failed to get clouds: timed out'')])"
  using one_request_with_timeout [of "example_env (Inl (OtherException ''timed out''))" "GetClouds Context"]
  by (simp add: sent_def outcome_def quads_get_clouds_def py_defs Let_def example_defs)

lemma str_nat_2: "str_nat (Suc (Suc 0)) = ''2''"
  by (subst str_nat.simps) (simp add: digit_char_def)

subsection \<open>The shape of the returned value\<close>

text \<open>
  C2, as the code has it. Whenever an invocation returns, a tool other than \<^verbatim>\<open>quads_login\<close>
  returns a dict that has either its domain key and no \<^verbatim>\<open>error\<close> key, or the key \<^verbatim>\<open>error\<close>
  alone. \<^verbatim>\<open>quads_login\<close> returns an error dict (keys \<^verbatim>\<open>error\<close>, \<^verbatim>\<open>status_code\<close>, or \<^verbatim>\<open>error\<close>
  alone) or, on success, the decoded payload of the response as it is.
\<close>

theorem one_shape:
  assumes "outcome E c = Inr j"
  shows "(\<forall>k. domain_key c = Some k \<longrightarrow>
            (k \<in> set (keys j) \<and> ''error'' \<notin> set (keys j))
          \<or> (keys j = [''error''] \<and> k \<notin> set (keys j)))
       \<and> (domain_key c = None \<longrightarrow>
            keys j = [''error'', ''status_code'']
          \<or> keys j = [''error'']
          \<or> (\<exists>config resp. request_context E = Inr config
                \<and> http E (request_of (base_url_of config) c) = Inr resp
                \<and> is_success resp \<and> json_body resp = Inr j))"
  using assms
  by (cases c; cases "ctx_of c"; cases "request_context E")
     (auto simp: outcome_def tool_defs py_defs Let_def split: all_splits)

theorem one_shape_witness:
  "outcome (example_env (Inr (ok_response (JArray [JString ''host01''])))) (GetHosts None None None None (Some Context))
     = Inr (JObject [(''hosts'', JArray [JString ''host01'']), (''filters'', JObject [])])
   \<and> domain_key (GetHosts None None None None (Some Context)) = Some ''hosts''
   \<and> ''hosts'' \<in> set (keys (JObject [(''hosts'', JArray [JString ''host01'']), (''filters'', JObject [])]))
   \<and> ''error'' \<notin> set (keys (JObject [(''hosts'', JArray [JString ''host01'']), (''filters'', JObject [])]))"
  using one_shape [of "example_env (Inr (ok_response (JArray [JString ''host01''])))"
      "GetHosts None None None None (Some Context)"
      "JObject [(''hosts'', JArray [JString ''host01'']), (''filters'', JObject [])]"]
  by (simp add: outcome_def quads_get_hosts_def py_defs Let_def example_defs params_defs
      set_if_truthy_def set_if_not_None_def json_of_params_def)

text \<open>
  C2 as stated fails for \<^verbatim>\<open>quads_login\<close>: a 2xx answer with the body \<^verbatim>\<open>{}\<close> is returned
  unwrapped, a dict with neither a success key nor \<^verbatim>\<open>error\<close>.
\<close>

theorem login_payload_counterexample:
  "fst (run (quads_login (example_env (Inr (ok_response (JObject [])))) ''alice'' ''secret'' Context))
     = Inr (JObject [])
   \<and> keys (JObject []) = []"
  by (simp add: quads_login_def py_defs Let_def example_defs)

subsection \<open>Diagnostics\<close>

text \<open>
  No invocation emits a diagnostic: every \<^verbatim>\<open>ctx.info\<close> and \<^verbatim>\<open>ctx.error\<close> of the source lacks
  its \<^verbatim>\<open>await\<close>.
\<close>

lemma nothing_emitted: "emitted E c = []"
  by (cases c; cases "ctx_of c"; cases "request_context E")
     (auto simp: emitted_def tool_defs py_defs Let_def split: all_splits)

text \<open>
  C3 asks for exactly one error-level diagnostic on every failure path and exactly one
  informational diagnostic on every success path. The code at two inputs:
  \<^verbatim>\<open>quads_get_clouds\<close> with a Context when the transport times out returns the error dict
  having emitted nothing, its \<^verbatim>\<open>ctx.info\<close> and \<^verbatim>\<open>ctx.error\<close> coroutines left unawaited; and on
  a 2xx answer it returns the clouds having emitted nothing, two \<^verbatim>\<open>ctx.info\<close> coroutines
  left unawaited.
\<close>

theorem diagnostics_never_awaited:
  "run (quads_get_clouds (example_env (Inl (OtherException ''timed out''))) Context)
     = (Inr (JObject [(''error'', JString ''Failed to get clouds: timed out'')]),
        \<lparr>log = [],
         unawaited = [(Info, ''Fetching all clouds from QUADS''),
                      (Error, ''Failed to get clouds: timed out'')],
         requests = [\<lparr>verb = GET, url = ''https://quads.lab/api/v3/clouds/'', params = None,
                      auth = None, timeout = 30\<rparr>]\<rparr>)
   \<and> run (quads_get_clouds
          (example_env (Inr (ok_response (JArray [JString ''cloud01'', JString ''cloud02'']))))
          Context)
     = (Inr (JObject [(''clouds'', JArray [JString ''cloud01'', JString ''cloud02''])]),
        \<lparr>log = [],
         unawaited = [(Info, ''Fetching all clouds from QUADS''), (Info, ''Retrieved 2 clouds'')],
         requests = [\<lparr>verb = GET, url = ''https://quads.lab/api/v3/clouds/'', params = None,
                      auth = None, timeout = 30\<rparr>]\<rparr>)"
  by (simp add: quads_get_clouds_def py_defs Let_def example_defs str_nat_2)

subsection \<open>The tool boundary\<close>

text \<open>
  C8, as the code has it. With the Context present: when an exception below \<^verbatim>\<open>Exception\<close> is
  raised on the way, the invocation catches it and returns the error dict made from it;
  when an exception that is not below \<^verbatim>\<open>Exception\<close> (such as a cancellation) is raised, it
  leaves the invocation; and when none is raised the invocation returns a value.
\<close>

theorem exceptions_converted:
  assumes "ctx_of c = Some x"
  shows "(\<forall>e. raised E c = Some e \<longrightarrow> is_Exception e \<longrightarrow> outcome E c = Inr (error_envelope c e))
       \<and> (\<forall>e. raised E c = Some e \<longrightarrow> \<not> is_Exception e \<longrightarrow> outcome E c = Inl e)
       \<and> (raised E c = None \<longrightarrow> (\<exists>j. outcome E c = Inr j))"
  using assms
  by (cases c; cases "request_context E")
     (auto simp: outcome_def raised_def error_envelope_def tool_defs py_defs Let_def not_is_Exception
           split: all_splits)

theorem exceptions_converted_witness:
  "ctx_of (GetHosts None None None None (Some Context)) = Some Context
   \<and> raised \<lparr>request_context = Inl (OtherException ''No request context''),
             http = (\<lambda>r. Inl (OtherException ''unreachable'')), repr = plain_repr\<rparr>
       (GetHosts None None None None (Some Context))
     = Some (OtherException ''No request context'')
   \<and> is_Exception (OtherException ''No request context'')
   \<and> outcome \<lparr>request_context = Inl (OtherException ''No request context''),
              http = (\<lambda>r. Inl (OtherException ''unreachable'')), repr = plain_repr\<rparr>
       (GetHosts None None None None (Some Context))
     = Inr (JObject [(''error'', JString ''Failed to get hosts: No request context'')])"
  using exceptions_converted [of "GetHosts None None None None (Some Context)" Context
      "\<lparr>request_context = Inl (OtherException ''No request context''),
        http = (\<lambda>r. Inl (OtherException ''unreachable'')), repr = plain_repr\<rparr>"]
  by (simp add: raised_def error_envelope_def)

text \<open>
  C8 as stated fails in two ways. With \<^verbatim>\<open>ctx\<close> left at its default \<^verbatim>\<open>None\<close>, \<^verbatim>\<open>ctx.info\<close>
  raises AttributeError inside the \<^verbatim>\<open>try\<close>, and the handler's own \<^verbatim>\<open>ctx.error\<close> raises
  again, outside any \<^verbatim>\<open>try\<close>; and an exception that is not below \<^verbatim>\<open>Exception\<close> passes
  the \<^verbatim>\<open>except Exception\<close> clause.
\<close>

theorem escaping_exception_counterexample:
  "fst (run (quads_get_hosts (example_env (Inr (ok_response (JArray [])))) None None None None None))
     = Inl (none_has_no_attribute ''error'')
   \<and> fst (run (quads_get_clouds (example_env (Inl (BaseException ''CancelledError''))) Context))
     = Inl (BaseException ''CancelledError'')"
  by (simp add: quads_get_hosts_def quads_get_clouds_def py_defs Let_def example_defs
      none_has_no_attribute_def)

end
